theory Spec2Isabelle
  imports Main "HOL-Library.Word"
begin

unbundle bit_operations_syntax

section \<open>The USB traffic generator of pyUSBTraffic.py\<close>

text \<open>
  The program drives one USB device through the pyusb library and shows two counters in a
  window. The model below follows \<^verbatim>\<open>class USBTrafficGenerator\<close> method by method. What the
  methods receive from outside (the platform, the file system, the bus, the answers of the
  device, the random bytes) is a parameter of the model; what they do to the outside (log
  lines, error dialogs, calls of the USB library) is appended to a trace kept beside the
  fields of the object.
\<close>

subsection \<open>Constants and descriptors\<close>

type_synonym byte = "8 word"

text \<open>Lines 23 to 25 of the source.\<close>

definition LUMIDIGM_VID :: "16 word" where
  "LUMIDIGM_VID = 0x1FAE"

definition LUMIDIGM_PID :: "16 word" where
  "LUMIDIGM_PID = 0x0013"

text \<open>
  An endpoint descriptor, with the two fields the source reads. The functions
  \<^verbatim>\<open>usb.util.endpoint_type\<close> and \<^verbatim>\<open>usb.util.endpoint_direction\<close> belong to the pyusb
  library that the source imports: they mask the transfer type bits (0x03) of
  \<^verbatim>\<open>bmAttributes\<close> and the direction bit (0x80) of the address.
\<close>

record endpoint =
  bmAttributes :: byte
  bEndpointAddress :: byte

definition ENDPOINT_TYPE_BULK :: byte where
  "ENDPOINT_TYPE_BULK = 0x02"

definition ENDPOINT_OUT :: byte where
  "ENDPOINT_OUT = 0x00"

definition endpoint_type :: "byte \<Rightarrow> byte" where
  "endpoint_type attrs = attrs AND 0x03"

definition endpoint_direction :: "byte \<Rightarrow> byte" where
  "endpoint_direction address = address AND 0x80"

subsection \<open>Exceptions, devices and the host\<close>

text \<open>
  The source tells two classes of exception apart: \<^verbatim>\<open>usb.core.USBError\<close>, whose
  \<^verbatim>\<open>errno\<close> attribute is an integer or \<^verbatim>\<open>None\<close>, and every other exception.
\<close>

datatype py_exception = USBError "int option" | OtherException

text \<open>
  A device as the source sees it: its identifiers, and the outcome of each library call
  the source makes on it (\<open>None\<close> in an \<open>option\<close> of exceptions is a call that
  returns normally). \<open>active_interface\<close> is the result of
  \<^verbatim>\<open>get_active_configuration()\<close> followed by \<^verbatim>\<open>cfg[(0, 0)]\<close>: the endpoints of the
  interface in iteration order, or the exception raised on the way.
\<close>

record usb_device =
  idVendor :: "16 word"
  idProduct :: "16 word"
  reset_result :: "py_exception option"
  set_configuration_result :: "py_exception option"
  kernel_driver_active :: "py_exception + bool"
  detach_result :: "py_exception option"
  active_interface :: "py_exception + endpoint list"
  dispose_result :: "py_exception option"

type_synonym usb_backend = nat

text \<open>
  The host: the platform, the file system, the backend loader
  \<^verbatim>\<open>usb.backend.libusb1.get_backend\<close> (given the path handed to it through
  \<^verbatim>\<open>find_library\<close>, if any; it returns a backend or \<^verbatim>\<open>None\<close>) and the devices that
  \<^verbatim>\<open>usb.core.find\<close> enumerates through a backend.
\<close>

record host =
  is_windows :: bool
  expandvars :: "string \<Rightarrow> string"
  path_exists :: "string \<Rightarrow> bool"
  get_backend :: "string option \<Rightarrow> py_exception + usb_backend option"
  bus :: "usb_backend option \<Rightarrow> py_exception + usb_device list"

subsection \<open>The object and its trace\<close>

datatype level = DEBUG | INFO | WARNING | ERROR

text \<open>
  What a method does to the outside. A log line carries its level and the text of the
  message up to its first interpolated value; \<open>ShowError\<close> is
  \<^verbatim>\<open>messagebox.showerror("Error", text)\<close>; the others are calls of the USB library and
  \<^verbatim>\<open>time.sleep(0.05)\<close>.
\<close>

datatype action =
    Log level string
  | ShowError string
  | EnumerateAll
  | FindDevice "16 word" "16 word"
  | ResetDevice
  | SetConfiguration
  | IsKernelDriverActive nat
  | DetachKernelDriver nat
  | WriteEp byte "byte list" nat
  | ReadEp byte nat nat
  | Sleep
  | DisposeResources

record generator =
  running :: bool
  device :: "usb_device option"
  packet_count :: int
  byte_count :: int
  backend :: "usb_backend option"
  setup_complete :: bool
  traffic_thread :: bool
  trace :: "action list"

definition emit :: "action \<Rightarrow> generator \<Rightarrow> generator" where
  "emit a s = s\<lparr>trace := trace s @ [a]\<rparr>"

definition log :: "level \<Rightarrow> string \<Rightarrow> generator \<Rightarrow> generator" where
  "log l m s = emit (Log l m) s"

text \<open>The user-visible errors, under the names the specification gives them.\<close>

definition BackendNotFound :: action where
  "BackendNotFound = ShowError ''libusb-1.0.dll not found. Please install libusb.''"

definition DeviceNotFound :: action where
  "DeviceNotFound = ShowError ''Lumidigm device not found''"

definition NoOutputEndpoint :: action where
  "NoOutputEndpoint = ShowError ''No output endpoint found''"

text \<open>\<^verbatim>\<open>__init__\<close>, lines 28 to 37.\<close>

definition init :: generator where
  "init = \<lparr>running = False, device = None, packet_count = 0, byte_count = 0,
     backend = None, setup_complete = False, traffic_thread = False,
     trace = [Log INFO ''USBTrafficGenerator initialized'']\<rparr>"

subsection \<open>The endpoint scan of \<^verbatim>\<open>generate_traffic\<close>\<close>

text \<open>
  Lines 142 to 150: \<^verbatim>\<open>ep_out\<close> and \<^verbatim>\<open>ep_in\<close> start as \<^verbatim>\<open>None\<close> and every bulk
  endpoint of the interface overwrites one of them.
\<close>

fun scan_endpoints ::
  "endpoint list \<Rightarrow> endpoint option \<times> endpoint option \<Rightarrow> endpoint option \<times> endpoint option"
where
  "scan_endpoints [] found = found"
| "scan_endpoints (ep # eps) (ep_out, ep_in) =
     scan_endpoints eps
       (if endpoint_type (bmAttributes ep) = ENDPOINT_TYPE_BULK then
          (if endpoint_direction (bEndpointAddress ep) = ENDPOINT_OUT
           then (Some ep, ep_in) else (ep_out, Some ep))
        else (ep_out, ep_in))"

text \<open>
  The reading of the scan that the claim gives: among the bulk endpoints, the last one
  of each direction.
\<close>

definition is_bulk_out :: "endpoint \<Rightarrow> bool" where
  "is_bulk_out ep \<longleftrightarrow>
     endpoint_type (bmAttributes ep) = ENDPOINT_TYPE_BULK \<and>
     endpoint_direction (bEndpointAddress ep) = ENDPOINT_OUT"

definition is_bulk_in :: "endpoint \<Rightarrow> bool" where
  "is_bulk_in ep \<longleftrightarrow>
     endpoint_type (bmAttributes ep) = ENDPOINT_TYPE_BULK \<and>
     endpoint_direction (bEndpointAddress ep) \<noteq> ENDPOINT_OUT"

definition last_of :: "'a list \<Rightarrow> 'a option" where
  "last_of xs = (case rev xs of [] \<Rightarrow> None | x # _ \<Rightarrow> Some x)"

subsection \<open>\<^verbatim>\<open>setup_backend\<close>\<close>

definition backslash :: char where
  "backslash = CHR 0x5C"

text \<open>Lines 44 to 48: the three places where the library is looked for.\<close>

definition libusb_paths :: "host \<Rightarrow> string list" where
  "libusb_paths h =
     [''C:'' @ backslash # ''Windows'' @ backslash # ''System32'' @ backslash # ''libusb-1.0.dll'',
      expandvars h (''%ProgramFiles%'' @ backslash # ''LibUSB-Win32'' @ backslash # ''bin''
        @ backslash # ''libusb-1.0.dll''),
      expandvars h (''%ProgramFiles(x86)%'' @ backslash # ''LibUSB-Win32'' @ backslash # ''bin''
        @ backslash # ''libusb-1.0.dll'')]"

text \<open>
  Results of a block of statements that can raise: the exception, if one was raised, and
  the object as the block left it.
\<close>

type_synonym raised = "py_exception option \<times> generator"

text \<open>Lines 50 to 54: the loop over the paths stops at the first one that exists.\<close>

fun try_paths :: "host \<Rightarrow> string list \<Rightarrow> generator \<Rightarrow> raised" where
  "try_paths h [] s = (None, s)"
| "try_paths h (path # paths) s =
     (if path_exists h path then
        (case get_backend h (Some path) of
           Inl e \<Rightarrow> (Some e, s)
         | Inr b \<Rightarrow> (None, log INFO ''Found libusb-1.0.dll at '' (s\<lparr>backend := b\<rparr>)))
      else try_paths h paths s)"

text \<open>Lines 63 to 65, and the handler of lines 66 to 69.\<close>

definition setup_done :: "generator \<Rightarrow> bool \<times> generator" where
  "setup_done s = (True, log INFO ''Backend setup complete'' (s\<lparr>setup_complete := True\<rparr>))"

definition setup_failed :: "generator \<Rightarrow> bool \<times> generator" where
  "setup_failed s =
     (False, emit (ShowError ''Backend setup failed:'') (log ERROR ''Backend setup failed: '' s))"

definition setup_backend :: "host \<Rightarrow> generator \<Rightarrow> bool \<times> generator" where
  "setup_backend h s0 =
     (let s = log INFO ''Setting up libusb backend'' s0 in
      if is_windows h then
        (case try_paths h (libusb_paths h) s of
           (Some e, s1) \<Rightarrow> setup_failed s1
         | (None, s1) \<Rightarrow>
             if backend s1 = None
             then (False, emit BackendNotFound (log ERROR ''libusb-1.0.dll not found'' s1))
             else setup_done s1)
      else
        (case get_backend h None of
           Inl e \<Rightarrow> setup_failed s
         | Inr b \<Rightarrow> setup_done (log INFO ''Using default libusb backend'' (s\<lparr>backend := b\<rparr>))))"

subsection \<open>\<^verbatim>\<open>find_device\<close>\<close>

text \<open>Lines 98 to 121: the configuration of the device that was found, by platform.\<close>

definition detach_kernel_driver :: "usb_device \<Rightarrow> generator \<Rightarrow> raised" where
  "detach_kernel_driver dev s =
     (case detach_result dev of
        None \<Rightarrow> (None, log INFO ''Kernel driver detached'' (emit (DetachKernelDriver 0) s))
      | Some e \<Rightarrow> (Some e, emit (DetachKernelDriver 0) s))"

definition configure_device :: "host \<Rightarrow> usb_device \<Rightarrow> generator \<Rightarrow> raised" where
  "configure_device h dev s =
     (if is_windows h then
        (let s1 = (case reset_result dev of
                     None \<Rightarrow> log INFO ''Device reset'' (emit ResetDevice s)
                   | Some e \<Rightarrow> log WARNING ''Device reset failed'' (emit ResetDevice s));
             s2 = emit SetConfiguration s1
         in case set_configuration_result dev of
              None \<Rightarrow> (None, log INFO ''Device configuration set'' s2)
            | Some (USBError n) \<Rightarrow> (None, log WARNING ''Configuration warning: '' s2)
            | Some OtherException \<Rightarrow> (Some OtherException, s2))
      else
        (let s1 = emit (IsKernelDriverActive 0) s in
         case kernel_driver_active dev of
           Inl e \<Rightarrow> (Some e, s1)
         | Inr active \<Rightarrow>
             (case (if active then detach_kernel_driver dev s1 else (None, s1)) of
                (Some e, s2) \<Rightarrow> (Some e, s2)
              | (None, s2) \<Rightarrow>
                  (case set_configuration_result dev of
                     None \<Rightarrow> (None, log INFO ''Device configuration set'' (emit SetConfiguration s2))
                   | Some e \<Rightarrow> (Some e, emit SetConfiguration s2)))))"

text \<open>Lines 81 and 82: one log line for each device on the bus.\<close>

fun log_devices :: "usb_device list \<Rightarrow> generator \<Rightarrow> generator" where
  "log_devices [] s = s"
| "log_devices (dev # devs) s = log_devices devs (log INFO ''  VID='' s)"

text \<open>The handler of lines 126 to 129.\<close>

definition configuration_failed :: "generator \<Rightarrow> bool \<times> generator" where
  "configuration_failed s =
     (False, emit (ShowError ''Device configuration failed:'')
        (log ERROR ''Device configuration failed: '' s))"

text \<open>
  \<^verbatim>\<open>usb.core.find(idVendor=..., idProduct=..., backend=...)\<close> returns the first
  enumerated device whose two identifiers are the ones asked for, or \<^verbatim>\<open>None\<close>. Both
  calls of \<^verbatim>\<open>usb.core.find\<close> in the method see the same bus.
\<close>

definition is_lumidigm :: "usb_device \<Rightarrow> bool" where
  "is_lumidigm d \<longleftrightarrow> idVendor d = LUMIDIGM_VID \<and> idProduct d = LUMIDIGM_PID"

text \<open>
  Line 75: the backend is set up unless an earlier call has completed the setup; the
  second operand of \<^verbatim>\<open>and\<close> is only evaluated when the first holds.
\<close>

definition ensure_backend :: "host \<Rightarrow> generator \<Rightarrow> bool \<times> generator" where
  "ensure_backend h s = (if \<not> setup_complete s then setup_backend h s else (True, s))"

definition find_device :: "host \<Rightarrow> generator \<Rightarrow> bool \<times> generator" where
  "find_device h s0 =
     (let s = log INFO ''Searching for Lumidigm device'' s0;
          (ok, s1) = ensure_backend h s
      in if \<not> ok then (False, s1)
         else
           (case bus h (backend s1) of
              Inl e \<Rightarrow> configuration_failed (emit EnumerateAll s1)
            | Inr all_devices \<Rightarrow>
                (let s2 = log_devices all_devices
                            (log INFO ''Connected USB devices:'' (emit EnumerateAll s1));
                     found = List.find is_lumidigm all_devices;
                     s3 = (emit (FindDevice LUMIDIGM_VID LUMIDIGM_PID) s2)\<lparr>device := found\<rparr>
                 in case found of
                      None \<Rightarrow>
                        (False, emit DeviceNotFound (log ERROR ''Lumidigm device not found'' s3))
                    | Some dev \<Rightarrow>
                        (case configure_device h dev
                                (log INFO ''Lumidigm device found, attempting to configure...'' s3) of
                           (Some e, s4) \<Rightarrow> configuration_failed s4
                         | (None, s4) \<Rightarrow> (True, log INFO ''Device configured successfully'' s4)))))"

subsection \<open>\<^verbatim>\<open>generate_traffic\<close>\<close>

text \<open>
  One pass through the body of the loop receives from outside the 64 results of
  \<^verbatim>\<open>random.getrandbits(8)\<close> and the outcomes of the write and of the read (the read
  only happens when there is an IN endpoint and the write returned).
\<close>

record iteration =
  randbits :: "nat \<Rightarrow> byte"
  write_result :: "py_exception + int"
  read_result :: "py_exception + byte list"

datatype step = Continue generator | Break generator

text \<open>The two handlers of lines 181 to 186: each logs and leaves the loop.\<close>

definition handle_exception :: "py_exception \<Rightarrow> generator \<Rightarrow> step" where
  "handle_exception e s =
     (case e of
        USBError n \<Rightarrow> Break (log ERROR ''USB Error: '' s)
      | OtherException \<Rightarrow> Break (log ERROR ''Error: '' s))"

text \<open>
  Line 162 builds the packet from 64 draws; lines 160 to 186 are the body. With
  \<^verbatim>\<open>ep_out\<close> equal to \<^verbatim>\<open>None\<close> the attribute access of line 163 raises, which is
  not a \<^verbatim>\<open>USBError\<close>. The log call of line 177 stands after \<^verbatim>\<open>raise\<close> and is
  never run.
\<close>

definition packet :: "iteration \<Rightarrow> byte list" where
  "packet it = map (randbits it) [0..<64]"

definition loop_body ::
  "endpoint option \<Rightarrow> endpoint option \<Rightarrow> iteration \<Rightarrow> generator \<Rightarrow> step"
where
  "loop_body ep_out ep_in it s =
     (let data = packet it in
      case ep_out of
        None \<Rightarrow> handle_exception OtherException s
      | Some out \<Rightarrow>
          (let s1 = emit (WriteEp (bEndpointAddress out) data 1000) s in
           case write_result it of
             Inl e \<Rightarrow> handle_exception e s1
           | Inr written \<Rightarrow>
               (let s2 = log DEBUG ''Sent packet: ''
                           (s1\<lparr>packet_count := packet_count s1 + 1,
                               byte_count := byte_count s1 + written\<rparr>)
                in case ep_in of
                     None \<Rightarrow> Continue (emit Sleep s2)
                   | Some inp \<Rightarrow>
                       (let s3 = emit (ReadEp (bEndpointAddress inp) 64 1000) s2 in
                        case read_result it of
                          Inr data_in \<Rightarrow>
                            Continue (emit Sleep (log DEBUG ''Received data: ''
                              (s3\<lparr>byte_count := byte_count s3 + int (length data_in)\<rparr>)))
                        | Inl (USBError n) \<Rightarrow>
                            if n \<noteq> Some (- 7) then handle_exception (USBError n) s3
                            else Continue (emit Sleep s3)
                        | Inl OtherException \<Rightarrow> handle_exception OtherException s3))))"

text \<open>
  The loop of line 159 runs as long as the script of iterations lasts. \<open>Looping\<close> is the
  object seen at the test of the loop when the script has run out and the flag is still
  set; \<open>Done\<close> is the object with which the loop was left. The methods are modelled one
  call at a time: nothing in the body clears the flag, and a call of \<^verbatim>\<open>stop_traffic\<close>
  from the thread of the window in the middle of an iteration is outside the model.
\<close>

datatype status = Looping | Done

fun transfer_loop ::
  "endpoint option \<Rightarrow> endpoint option \<Rightarrow> iteration list \<Rightarrow> generator \<Rightarrow> status \<times> generator"
where
  "transfer_loop ep_out ep_in [] s = (if running s then (Looping, s) else (Done, s))"
| "transfer_loop ep_out ep_in (it # its) s =
     (if running s then
        (case loop_body ep_out ep_in it s of
           Continue s' \<Rightarrow> transfer_loop ep_out ep_in its s'
         | Break s' \<Rightarrow> (Done, s'))
      else (Done, s))"

text \<open>
  Lines 152 to 156, statement by statement: two reports, \<^verbatim>\<open>return\<close>, and the log call
  that the source places after it.
\<close>

datatype stmt = Do action | Return

datatype flow = Next generator | Returned generator

fun exec :: "stmt list \<Rightarrow> generator \<Rightarrow> flow" where
  "exec [] s = Next s"
| "exec (Return # rest) s = Returned s"
| "exec (Do a # rest) s = exec rest (emit a s)"

definition using_endpoints :: action where
  "using_endpoints = Log INFO ''Using endpoints - OUT: 0x''"

definition no_output_block :: "stmt list" where
  "no_output_block =
     [Do (Log ERROR ''No output endpoint found''), Do NoOutputEndpoint, Return,
      Do using_endpoints]"

text \<open>The \<^verbatim>\<open>finally\<close> clause, lines 191 to 193.\<close>

definition finally_clause :: "generator \<Rightarrow> generator" where
  "finally_clause s = log INFO ''Traffic stopped'' (s\<lparr>running := False\<rparr>)"

text \<open>
  The method. The test of line 133 and its \<^verbatim>\<open>return\<close> stand before the \<^verbatim>\<open>try\<close>,
  so the \<^verbatim>\<open>finally\<close> clause does not run for them.
\<close>

definition generate_traffic :: "iteration list \<Rightarrow> generator \<Rightarrow> status \<times> generator" where
  "generate_traffic script s =
     (case device s of
        None \<Rightarrow> (Done, log ERROR ''No device found'' s)
      | Some dev \<Rightarrow>
          (case active_interface dev of
             Inl e \<Rightarrow>
               (Done, finally_clause (emit (ShowError ''Traffic generation failed:'')
                  (log ERROR ''Traffic generation failed: '' s)))
           | Inr intf \<Rightarrow>
               (let (ep_out, ep_in) = scan_endpoints intf (None, None) in
                case (if ep_out = None then exec no_output_block s else Next s) of
                  Returned s1 \<Rightarrow> (Done, finally_clause s1)
                | Next s1 \<Rightarrow>
                    (case transfer_loop ep_out ep_in script
                            (log INFO ''Starting traffic generation'' s1) of
                       (Looping, s2) \<Rightarrow> (Looping, s2)
                     | (Done, s2) \<Rightarrow> (Done, finally_clause s2)))))"

subsection \<open>\<^verbatim>\<open>stop_traffic\<close> and the start button\<close>

text \<open>Lines 195 to 206. The bare \<^verbatim>\<open>except\<close> swallows whatever the release raises.\<close>

definition stop_traffic :: "generator \<Rightarrow> generator" where
  "stop_traffic s0 =
     (let s = s0\<lparr>running := False\<rparr>;
          s1 = (case device s of
                  None \<Rightarrow> s
                | Some dev \<Rightarrow>
                    (case dispose_result dev of
                       None \<Rightarrow> log INFO ''Disposed USB resources'' (emit DisposeResources s)
                     | Some e \<Rightarrow>
                         log ERROR ''Failed to dispose USB resources'' (emit DisposeResources s)))
      in log INFO ''Traffic stopped'' (s1\<lparr>device := None\<rparr>))"

text \<open>
  \<^verbatim>\<open>App.start_traffic\<close>, lines 279 to 287: when the device is found the flag is set and
  the thread that runs \<^verbatim>\<open>generate_traffic\<close> is started.
\<close>

definition start_traffic :: "host \<Rightarrow> generator \<Rightarrow> generator" where
  "start_traffic h s0 =
     (case find_device h (log INFO ''Starting traffic'' s0) of
        (True, s) \<Rightarrow> s\<lparr>running := True, traffic_thread := True\<rparr>
      | (False, s) \<Rightarrow> s)"

subsection \<open>A life of the process\<close>

text \<open>
  The window calls the methods one after the other. An operation is one such call, with
  what the outside answers during it; a life of the process is a list of operations
  applied to the object in order. For \<^verbatim>\<open>generate_traffic\<close> the object kept is the one
  seen when the script of iterations ends.
\<close>

datatype operation =
    OpSetupBackend host
  | OpFindDevice host
  | OpStartTraffic host
  | OpGenerateTraffic "iteration list"
  | OpStopTraffic

fun apply_operation :: "operation \<Rightarrow> generator \<Rightarrow> generator" where
  "apply_operation (OpSetupBackend h) s = snd (setup_backend h s)"
| "apply_operation (OpFindDevice h) s = snd (find_device h s)"
| "apply_operation (OpStartTraffic h) s = start_traffic h s"
| "apply_operation (OpGenerateTraffic script) s = snd (generate_traffic script s)"
| "apply_operation OpStopTraffic s = stop_traffic s"

fun run :: "operation list \<Rightarrow> generator \<Rightarrow> generator" where
  "run [] s = s"
| "run (op # ops) s = run ops (apply_operation op s)"

subsection \<open>The classes of iterations and devices that the claims name\<close>



text \<open>The bytes an iteration wrote and read, as the library reports them.\<close>

definition bytes_written :: "iteration \<Rightarrow> int" where
  "bytes_written it = (case write_result it of Inl e \<Rightarrow> 0 | Inr written \<Rightarrow> written)"

definition bytes_read :: "endpoint option \<Rightarrow> iteration \<Rightarrow> int" where
  "bytes_read ep_in it =
     (case ep_in of
        None \<Rightarrow> 0
      | Some inp \<Rightarrow> (case read_result it of Inl e \<Rightarrow> 0 | Inr data_in \<Rightarrow> int (length data_in)))"

text \<open>An iteration whose write and read both succeed with 64 bytes.\<close>

definition full_iteration :: "iteration \<Rightarrow> bool" where
  "full_iteration it \<longleftrightarrow>
     write_result it = Inr 64 \<and>
     (case read_result it of Inl e \<Rightarrow> False | Inr data_in \<Rightarrow> length data_in = 64)"

text \<open>
  The library reports the number of bytes a write transferred, which is never negative.
\<close>

definition write_count_ok :: "iteration \<Rightarrow> bool" where
  "write_count_ok it \<longleftrightarrow> 0 \<le> bytes_written it"

fun counts_ok :: "operation \<Rightarrow> bool" where
  "counts_ok (OpGenerateTraffic script) = list_all write_count_ok script"
| "counts_ok other = True"


subsection \<open>Example inputs\<close>

text \<open>
  A device with one bulk OUT endpoint at address 0x02 and one bulk IN endpoint at address
  0x81, a host that is not Windows with this device on its bus, and a few iterations.
\<close>

definition ep_out_02 :: endpoint where
  "ep_out_02 = \<lparr>bmAttributes = 0x02, bEndpointAddress = 0x02\<rparr>"

definition ep_in_81 :: endpoint where
  "ep_in_81 = \<lparr>bmAttributes = 0x02, bEndpointAddress = 0x81\<rparr>"

definition ep_interrupt_out :: endpoint where
  "ep_interrupt_out = \<lparr>bmAttributes = 0x03, bEndpointAddress = 0x03\<rparr>"

definition example_device :: usb_device where
  "example_device =
     \<lparr>idVendor = 0x1FAE, idProduct = 0x0013, reset_result = None,
      set_configuration_result = None, kernel_driver_active = Inr False,
      detach_result = None, active_interface = Inr [ep_out_02, ep_in_81],
      dispose_result = None\<rparr>"

definition example_host :: host where
  "example_host =
     \<lparr>is_windows = False, expandvars = (\<lambda>p. p), path_exists = (\<lambda>p. False),
      get_backend = (\<lambda>p. Inr (Some 0)), bus = (\<lambda>b. Inr [example_device])\<rparr>"

definition busy_device :: usb_device where
  "busy_device = example_device\<lparr>set_configuration_result := Some (USBError (Some 16))\<rparr>"

definition windows_host :: host where
  "windows_host =
     \<lparr>is_windows = True, expandvars = (\<lambda>p. p), path_exists = (\<lambda>p. True),
      get_backend = (\<lambda>p. Inr (Some 0)),
      bus = (\<lambda>b. Inr [busy_device\<lparr>reset_result := Some OtherException\<rparr>])\<rparr>"

definition started :: generator where
  "started = init\<lparr>running := True, device := Some example_device, backend := Some 0,
     setup_complete := True, traffic_thread := True\<rparr>"

definition full_it :: iteration where
  "full_it = \<lparr>randbits = (\<lambda>k. 0), write_result = Inr 64, read_result = Inr (replicate 64 0)\<rparr>"

definition timeout_it :: iteration where
  "timeout_it =
     \<lparr>randbits = (\<lambda>k. 0), write_result = Inr 64, read_result = Inl (USBError (Some (- 7)))\<rparr>"

definition stall_it :: iteration where
  "stall_it =
     \<lparr>randbits = (\<lambda>k. 0), write_result = Inr 64, read_result = Inl (USBError (Some (- 9)))\<rparr>"

section \<open>Properties\<close>

subsection \<open>The trace and the fields\<close>

lemma emit_fields [simp]:
  "running (emit a s) = running s"
  "device (emit a s) = device s"
  "packet_count (emit a s) = packet_count s"
  "byte_count (emit a s) = byte_count s"
  "backend (emit a s) = backend s"
  "setup_complete (emit a s) = setup_complete s"
  "traffic_thread (emit a s) = traffic_thread s"
  "trace (emit a s) = trace s @ [a]"
  by (simp_all add: emit_def)

lemma log_fields [simp]:
  "running (log l m s) = running s"
  "device (log l m s) = device s"
  "packet_count (log l m s) = packet_count s"
  "byte_count (log l m s) = byte_count s"
  "backend (log l m s) = backend s"
  "setup_complete (log l m s) = setup_complete s"
  "traffic_thread (log l m s) = traffic_thread s"
  "trace (log l m s) = trace s @ [Log l m]"
  by (simp_all add: log_def)

lemma finally_fields [simp]:
  "running (finally_clause s) = False"
  "device (finally_clause s) = device s"
  "packet_count (finally_clause s) = packet_count s"
  "byte_count (finally_clause s) = byte_count s"
  "backend (finally_clause s) = backend s"
  "setup_complete (finally_clause s) = setup_complete s"
  "traffic_thread (finally_clause s) = traffic_thread s"
  "trace (finally_clause s) = trace s @ [Log INFO ''Traffic stopped'']"
  by (simp_all add: finally_clause_def)

subsection \<open>The endpoint scan\<close>

lemma last_of_simps:
  "last_of [] = None"
  "last_of (xs @ [x]) = Some x"
  by (simp_all add: last_of_def)

lemma scan_endpoints_snoc:
  "scan_endpoints (eps @ [ep]) found =
     (let (ep_out, ep_in) = scan_endpoints eps found in
      if endpoint_type (bmAttributes ep) = ENDPOINT_TYPE_BULK then
        (if endpoint_direction (bEndpointAddress ep) = ENDPOINT_OUT
         then (Some ep, ep_in) else (ep_out, Some ep))
      else (ep_out, ep_in))"
proof (induction eps arbitrary: found)
  case Nil
  show ?case by (cases found) simp
next
  case (Cons e eps)
  show ?case by (cases found) (simp add: Cons.IH)
qed

lemma scan_endpoints_filter:
  "scan_endpoints eps (None, None) =
     (last_of (filter is_bulk_out eps), last_of (filter is_bulk_in eps))"
proof (induction eps rule: rev_induct)
  case Nil
  show ?case by (simp add: last_of_simps)
next
  case (snoc ep eps)
  show ?case
    by (simp add: scan_endpoints_snoc snoc.IH last_of_simps is_bulk_out_def is_bulk_in_def)
qed

text \<open>
  C10. The scan returns, as the OUT endpoint, the last bulk endpoint of direction OUT in
  iteration order and, as the IN endpoint, the last bulk endpoint of any other direction;
  earlier candidates are overwritten, none is rejected.
\<close>

theorem scan_endpoints_last:
  "scan_endpoints eps (None, None) =
     (last_of (filter is_bulk_out eps), last_of (filter is_bulk_in eps))"
  by (rule scan_endpoints_filter)

subsection \<open>The body of the loop\<close>

lemma loop_body_Continue:
  "loop_body (Some out) ep_in it s = Continue s' \<Longrightarrow>
     running s' = running s \<and> device s' = device s \<and>
     packet_count s' = packet_count s + 1 \<and>
     byte_count s' = byte_count s + bytes_written it + bytes_read ep_in it \<and>
     take (Suc (length (trace s))) (trace s') =
       trace s @ [WriteEp (bEndpointAddress out) (packet it) 1000]"
  by (auto simp: loop_body_def Let_def bytes_written_def bytes_read_def handle_exception_def
      split: sum.splits option.splits py_exception.splits if_splits)



subsection \<open>The loop\<close>




lemma generate_traffic_loop:
  assumes "device s = Some dev" and "active_interface dev = Inr intf"
    and "scan_endpoints intf (None, None) = (Some out, ep_in)"
  shows "generate_traffic script s =
           (case transfer_loop (Some out) ep_in script
                   (log INFO ''Starting traffic generation'' s) of
              (Looping, s2) \<Rightarrow> (Looping, s2)
            | (Done, s2) \<Rightarrow> (Done, finally_clause s2))"
  using assms by (simp add: generate_traffic_def)

lemma example_scan:
  "scan_endpoints [ep_out_02, ep_in_81] (None, None) = (Some ep_out_02, Some ep_in_81)"
  by (simp add: ep_out_02_def ep_in_81_def endpoint_type_def endpoint_direction_def
      ENDPOINT_TYPE_BULK_def ENDPOINT_OUT_def)

lemma started_fields:
  "running started" "device started = Some example_device"
  "packet_count started = 0" "byte_count started = 0"
  "active_interface example_device = Inr [ep_out_02, ep_in_81]"
  by (simp_all add: started_def init_def example_device_def)



subsection \<open>Early returns of \<^verbatim>\<open>generate_traffic\<close>\<close>

lemma exec_no_output_block:
  "exec no_output_block s =
     Returned (emit NoOutputEndpoint (log ERROR ''No output endpoint found'' s))"
  by (simp add: no_output_block_def log_def)

text \<open>
  C2. When the interface of the device has no bulk OUT endpoint, \<^verbatim>\<open>generate_traffic\<close>
  reports \<open>NoOutputEndpoint\<close> and returns: the trace gains the error log, the report
  and the log of the \<^verbatim>\<open>finally\<close> clause, hence no write and no start of the loop; the
  two counters are as they were.
\<close>

theorem generate_traffic_no_output_endpoint:
  assumes "device s = Some dev" and "active_interface dev = Inr intf"
    and "filter is_bulk_out intf = []"
  shows "generate_traffic script s =
           (Done, s\<lparr>running := False,
              trace := trace s @ [Log ERROR ''No output endpoint found'', NoOutputEndpoint,
                                  Log INFO ''Traffic stopped'']\<rparr>) \<and>
         packet_count (snd (generate_traffic script s)) = packet_count s \<and>
         byte_count (snd (generate_traffic script s)) = byte_count s"
  using assms
  by (simp add: generate_traffic_def scan_endpoints_filter last_of_def exec_no_output_block
      finally_clause_def log_def emit_def)

theorem generate_traffic_no_output_endpoint_witness:
  "filter is_bulk_out [ep_interrupt_out, ep_in_81] = [] \<and>
   generate_traffic [full_it]
     (started\<lparr>device :=
        Some (example_device\<lparr>active_interface := Inr [ep_interrupt_out, ep_in_81]\<rparr>)\<rparr>) =
     (Done, started\<lparr>running := False,
        device := Some (example_device\<lparr>active_interface := Inr [ep_interrupt_out, ep_in_81]\<rparr>),
        trace := [Log INFO ''USBTrafficGenerator initialized'',
                  Log ERROR ''No output endpoint found'', NoOutputEndpoint,
                  Log INFO ''Traffic stopped'']\<rparr>)"
proof -
  have f: "filter is_bulk_out [ep_interrupt_out, ep_in_81] = []"
    by (simp add: is_bulk_out_def ep_interrupt_out_def ep_in_81_def endpoint_type_def
        endpoint_direction_def ENDPOINT_TYPE_BULK_def ENDPOINT_OUT_def)
  from generate_traffic_no_output_endpoint
    [of "started\<lparr>device :=
           Some (example_device\<lparr>active_interface := Inr [ep_interrupt_out, ep_in_81]\<rparr>)\<rparr>"
        "example_device\<lparr>active_interface := Inr [ep_interrupt_out, ep_in_81]\<rparr>"
        "[ep_interrupt_out, ep_in_81]" "[full_it]"] f
  show ?thesis by (simp add: started_def init_def)
qed

text \<open>
  C9. Without a device, \<^verbatim>\<open>generate_traffic\<close> logs one error and returns the object as
  it was: the counters, the device handle and the running flag keep their values, the flag
  also when it was set, because the \<^verbatim>\<open>finally\<close> clause is not reached.
\<close>

theorem generate_traffic_no_device:
  assumes "device s = None"
  shows "generate_traffic script s =
           (Done, s\<lparr>trace := trace s @ [Log ERROR ''No device found'']\<rparr>) \<and>
         running (snd (generate_traffic script s)) = running s \<and>
         device (snd (generate_traffic script s)) = None \<and>
         packet_count (snd (generate_traffic script s)) = packet_count s \<and>
         byte_count (snd (generate_traffic script s)) = byte_count s"
  using assms by (simp add: generate_traffic_def log_def emit_def)

theorem generate_traffic_no_device_witness:
  "device (init\<lparr>running := True\<rparr>) = None \<and>
   running (snd (generate_traffic [full_it] (init\<lparr>running := True\<rparr>))) \<and>
   generate_traffic [full_it] (init\<lparr>running := True\<rparr>) =
     (Done, init\<lparr>running := True,
        trace := [Log INFO ''USBTrafficGenerator initialized'', Log ERROR ''No device found'']\<rparr>)"
  using generate_traffic_no_device [of "init\<lparr>running := True\<rparr>" "[full_it]"]
  by (simp add: init_def)

subsection \<open>Successful iterations\<close>

lemma length_packet: "length (packet it) = 64"
  by (simp add: packet_def)

lemma loop_body_full:
  "full_iteration it \<Longrightarrow> \<exists>s'. loop_body (Some out) (Some inp) it s = Continue s'"
  by (auto simp: loop_body_def Let_def full_iteration_def split: sum.splits)

lemma full_iteration_bytes:
  "full_iteration it \<Longrightarrow> bytes_written it = 64 \<and> bytes_read (Some inp) it = 64"
  by (auto simp: full_iteration_def bytes_written_def bytes_read_def split: sum.splits)

lemma transfer_loop_full:
  "running s \<Longrightarrow> list_all full_iteration script \<Longrightarrow>
     \<exists>s'. transfer_loop (Some out) (Some inp) script s = (Looping, s') \<and>
          packet_count s' = packet_count s + int (length script) \<and>
          byte_count s' = byte_count s + 128 * int (length script)"
proof (induction script arbitrary: s)
  case Nil
  then show ?case by simp
next
  case (Cons it script)
  from Cons.prems have full: "full_iteration it" and rest: "list_all full_iteration script"
    by simp_all
  from loop_body_full [OF full]
  obtain s1 where b: "loop_body (Some out) (Some inp) it s = Continue s1" by blast
  note c = loop_body_Continue [OF b] full_iteration_bytes [OF full, of inp]
  from c Cons.prems(1) have "running s1" by simp
  from Cons.IH [OF this rest]
  obtain s' where "transfer_loop (Some out) (Some inp) script s1 = (Looping, s')"
    and "packet_count s' = packet_count s1 + int (length script)"
    and "byte_count s' = byte_count s1 + 128 * int (length script)" by blast
  with b c Cons.prems(1) show ?case by simp
qed

text \<open>
  C3. The packet of an iteration has 64 bytes, each one a draw of the random source. An
  iteration that reaches the end of the body has written that packet to the OUT endpoint,
  has added 1 to \<open>packet_count\<close> and has added to \<open>byte_count\<close> the bytes written plus,
  with an IN endpoint, the bytes read. So with an IN endpoint, after a script of N
  iterations that each write and read 64 bytes the method is still looping,
  \<open>packet_count\<close> has grown by N and \<open>byte_count\<close> by 128 N; from a fresh object they
  are N and 128 N.
\<close>

theorem counters_per_iteration:
  assumes "device s = Some dev" and "active_interface dev = Inr intf"
    and "scan_endpoints intf (None, None) = (Some out, ep_in)"
  shows "length (packet it) = 64 \<and> (\<forall>k<64. packet it ! k = randbits it k) \<and>
         (loop_body (Some out) ep_in it s = Continue s' \<longrightarrow>
            take (Suc (length (trace s))) (trace s') =
              trace s @ [WriteEp (bEndpointAddress out) (packet it) 1000] \<and>
            packet_count s' = packet_count s + 1 \<and>
            byte_count s' = byte_count s + bytes_written it + bytes_read ep_in it) \<and>
         (running s \<and> ep_in \<noteq> None \<and> list_all full_iteration script \<longrightarrow>
            fst (generate_traffic script s) = Looping \<and>
            packet_count (snd (generate_traffic script s)) =
              packet_count s + int (length script) \<and>
            byte_count (snd (generate_traffic script s)) =
              byte_count s + 128 * int (length script) \<and>
            (packet_count s = 0 \<and> byte_count s = 0 \<longrightarrow>
               packet_count (snd (generate_traffic script s)) = int (length script) \<and>
               byte_count (snd (generate_traffic script s)) = 128 * int (length script)))"
proof -
  have C: "fst (generate_traffic script s) = Looping \<and>
      packet_count (snd (generate_traffic script s)) = packet_count s + int (length script) \<and>
      byte_count (snd (generate_traffic script s)) = byte_count s + 128 * int (length script)"
    if "running s" and "ep_in = Some inp" and "list_all full_iteration script" for inp
  proof -
    from that(1) have "running (log INFO ''Starting traffic generation'' s)" by simp
    from transfer_loop_full [OF this that(3), of out inp]
    obtain s' where "transfer_loop (Some out) (Some inp) script
        (log INFO ''Starting traffic generation'' s) = (Looping, s')"
      and "packet_count s' = packet_count s + int (length script)"
      and "byte_count s' = byte_count s + 128 * int (length script)" by auto
    with that(2) show ?thesis by (simp add: generate_traffic_loop [OF assms])
  qed
  have P: "\<forall>k<64. packet it ! k = randbits it k"
    by (simp add: packet_def)
  from C P loop_body_Continue [of out ep_in it s s'] length_packet [of it]
  show ?thesis by auto
qed

theorem counters_per_iteration_witness:
  "running started \<and> list_all full_iteration [full_it, full_it, full_it] \<and>
   length (packet full_it) = 64 \<and>
   fst (generate_traffic [full_it, full_it, full_it] started) = Looping \<and>
   packet_count (snd (generate_traffic [full_it, full_it, full_it] started)) = 3 \<and>
   byte_count (snd (generate_traffic [full_it, full_it, full_it] started)) = 384"
proof -
  have f: "list_all full_iteration [full_it, full_it, full_it]"
    by (simp add: full_iteration_def full_it_def)
  from counters_per_iteration
    [OF started_fields(2) started_fields(5) example_scan, of full_it _ "[full_it, full_it, full_it]"]
    f started_fields(1,3,4)
  show ?thesis by simp
qed

subsection \<open>The counters over a life of the process\<close>

lemma try_paths_counters [simp]:
  "packet_count (snd (try_paths h ps s)) = packet_count s"
  "byte_count (snd (try_paths h ps s)) = byte_count s"
  by (induction ps) (simp_all split: sum.splits)

lemma setup_backend_counters [simp]:
  "packet_count (snd (setup_backend h s)) = packet_count s"
  "byte_count (snd (setup_backend h s)) = byte_count s"
  by (simp_all add: setup_backend_def setup_done_def setup_failed_def Let_def split_beta
      split: option.splits sum.splits)

lemma ensure_backend_counters [simp]:
  "packet_count (snd (ensure_backend h s)) = packet_count s"
  "byte_count (snd (ensure_backend h s)) = byte_count s"
  by (simp_all add: ensure_backend_def)

lemma log_devices_counters [simp]:
  "packet_count (log_devices devs s) = packet_count s"
  "byte_count (log_devices devs s) = byte_count s"
  by (induction devs arbitrary: s) simp_all

lemma configure_device_counters [simp]:
  "packet_count (snd (configure_device h dev s)) = packet_count s"
  "byte_count (snd (configure_device h dev s)) = byte_count s"
  by (simp_all add: configure_device_def detach_kernel_driver_def Let_def split_beta
      split: option.splits sum.splits py_exception.splits)

lemma find_device_counters [simp]:
  "packet_count (snd (find_device h s)) = packet_count s"
  "byte_count (snd (find_device h s)) = byte_count s"
  by (simp_all add: find_device_def configuration_failed_def Let_def split_beta
      split: option.splits sum.splits)

lemma start_traffic_counters [simp]:
  "packet_count (start_traffic h s) = packet_count s"
  "byte_count (start_traffic h s) = byte_count s"
  by (simp_all add: start_traffic_def split_beta split: bool.splits)

lemma stop_traffic_fields [simp]:
  "packet_count (stop_traffic s) = packet_count s"
  "byte_count (stop_traffic s) = byte_count s"
  "running (stop_traffic s) = False"
  "device (stop_traffic s) = None"
  by (simp_all add: stop_traffic_def Let_def split: option.splits)

lemma loop_body_mono:
  "loop_body ep_out ep_in it s = r \<Longrightarrow> s' = (case r of Continue x \<Rightarrow> x | Break x \<Rightarrow> x) \<Longrightarrow>
     packet_count s \<le> packet_count s' \<and>
     (write_count_ok it \<longrightarrow> byte_count s \<le> byte_count s')"
  by (auto simp: loop_body_def Let_def write_count_ok_def bytes_written_def handle_exception_def
      split: sum.splits option.splits py_exception.splits if_splits)

lemma transfer_loop_mono:
  "list_all write_count_ok its \<Longrightarrow>
     packet_count s \<le> packet_count (snd (transfer_loop ep_out ep_in its s)) \<and>
     byte_count s \<le> byte_count (snd (transfer_loop ep_out ep_in its s))"
proof (induction its arbitrary: s)
  case Nil
  show ?case by simp
next
  case (Cons it its)
  from Cons.prems have ok: "write_count_ok it" and rest: "list_all write_count_ok its"
    by simp_all
  show ?case
  proof (cases "loop_body ep_out ep_in it s")
    case (Continue s1)
    from loop_body_mono [OF Continue, of s1] ok Cons.IH [OF rest, of s1] Continue
    show ?thesis by auto
  next
    case (Break s1)
    from loop_body_mono [OF Break, of s1] ok show ?thesis by (simp add: Break)
  qed
qed

lemma generate_traffic_mono:
  assumes "list_all write_count_ok script"
  shows "packet_count s \<le> packet_count (snd (generate_traffic script s)) \<and>
         byte_count s \<le> byte_count (snd (generate_traffic script s))"
proof -
  have loop: "packet_count s \<le> packet_count (snd (transfer_loop eo ei script
        (log INFO ''Starting traffic generation'' s))) \<and>
      byte_count s \<le> byte_count (snd (transfer_loop eo ei script
        (log INFO ''Starting traffic generation'' s)))" for eo ei
    using transfer_loop_mono [OF assms, of "log INFO ''Starting traffic generation'' s" eo ei]
    by simp
  show ?thesis
    using loop
    by (auto simp: generate_traffic_def exec_no_output_block split_beta
        split: option.splits sum.splits flow.splits status.splits)
qed

lemma apply_operation_mono:
  "counts_ok op \<Longrightarrow>
     packet_count s \<le> packet_count (apply_operation op s) \<and>
     byte_count s \<le> byte_count (apply_operation op s)"
  by (cases op) (simp_all add: generate_traffic_mono)

lemma run_mono:
  "list_all counts_ok ops \<Longrightarrow>
     packet_count s \<le> packet_count (run ops s) \<and> byte_count s \<le> byte_count (run ops s)"
proof (induction ops arbitrary: s)
  case Nil
  show ?case by simp
next
  case (Cons op ops)
  from Cons.prems have "counts_ok op" and "list_all counts_ok ops" by simp_all
  from apply_operation_mono [OF this(1), of s] Cons.IH [OF this(2), of "apply_operation op s"]
  show ?case by simp
qed

text \<open>
  C4. Over any list of operations on the object, in which the library reports no negative
  number of bytes written, neither counter ever decreases. \<^verbatim>\<open>stop_traffic\<close> leaves both
  counters as they are and leaves the running flag cleared, whatever the flag was before.
\<close>

theorem counters_never_decrease:
  assumes "list_all counts_ok ops"
  shows "packet_count s \<le> packet_count (run ops s) \<and>
         byte_count s \<le> byte_count (run ops s) \<and>
         packet_count (stop_traffic s) = packet_count s \<and>
         byte_count (stop_traffic s) = byte_count s \<and>
         \<not> running (stop_traffic s)"
  using run_mono [OF assms, of s] by simp

theorem counters_never_decrease_witness:
  "list_all counts_ok
     [OpStartTraffic example_host, OpGenerateTraffic [full_it, timeout_it], OpStopTraffic] \<and>
   packet_count init \<le> packet_count
     (run [OpStartTraffic example_host, OpGenerateTraffic [full_it, timeout_it], OpStopTraffic]
        init) \<and>
   byte_count init \<le> byte_count
     (run [OpStartTraffic example_host, OpGenerateTraffic [full_it, timeout_it], OpStopTraffic]
        init) \<and>
   \<not> running (stop_traffic init) \<and> packet_count (stop_traffic init) = 0"
proof -
  have ok: "list_all counts_ok
      [OpStartTraffic example_host, OpGenerateTraffic [full_it, timeout_it], OpStopTraffic]"
    by (simp add: write_count_ok_def bytes_written_def full_it_def timeout_it_def)
  from counters_never_decrease [OF ok, of init] ok show ?thesis
    by (simp add: init_def)
qed

subsection \<open>The log call after \<^verbatim>\<open>return\<close>\<close>

lemma loop_body_no_endpoint_log:
  "loop_body ep_out ep_in it s = r \<Longrightarrow> s' = (case r of Continue x \<Rightarrow> x | Break x \<Rightarrow> x) \<Longrightarrow>
     using_endpoints \<notin> set (trace s) \<Longrightarrow> using_endpoints \<notin> set (trace s')"
  by (auto simp: loop_body_def Let_def handle_exception_def using_endpoints_def
      split: sum.splits option.splits py_exception.splits if_splits)

lemma transfer_loop_no_endpoint_log:
  "using_endpoints \<notin> set (trace s) \<Longrightarrow>
     using_endpoints \<notin> set (trace (snd (transfer_loop ep_out ep_in its s)))"
proof (induction its arbitrary: s)
  case Nil
  then show ?case by simp
next
  case (Cons it its)
  show ?case
  proof (cases "loop_body ep_out ep_in it s")
    case (Continue s1)
    from loop_body_no_endpoint_log [OF Continue, of s1] Cons.prems
    have "using_endpoints \<notin> set (trace s1)" by simp
    from Cons.IH [OF this] Cons.prems show ?thesis by (simp add: Continue)
  next
    case (Break s1)
    from loop_body_no_endpoint_log [OF Break, of s1] Cons.prems
    show ?thesis by (simp add: Break)
  qed
qed

text \<open>
  C8. The log call about the chosen endpoints is a statement of the block taken when no
  OUT endpoint was found, placed after the \<^verbatim>\<open>return\<close> of that block, and no run of
  \<^verbatim>\<open>generate_traffic\<close> writes its line: a trace without the line is still without it
  when the method has run, on every object and every script.
\<close>

theorem endpoint_log_never_written:
  assumes "using_endpoints \<notin> set (trace s)"
  shows "Do using_endpoints \<in> set (dropWhile (\<lambda>st. st \<noteq> Return) no_output_block) \<and>
         using_endpoints \<notin> set (trace (snd (generate_traffic script s)))"
proof -
  have start: "using_endpoints \<notin> set (trace (log INFO ''Starting traffic generation'' s))"
    using assms by (simp add: using_endpoints_def)
  have loop: "using_endpoints \<notin> set (trace (snd (transfer_loop eo ei script
      (log INFO ''Starting traffic generation'' s))))" for eo ei
    by (rule transfer_loop_no_endpoint_log [OF start])
  have "using_endpoints \<notin> set (trace (snd (generate_traffic script s)))"
    using assms loop
    by (auto simp: generate_traffic_def exec_no_output_block split_beta using_endpoints_def
        NoOutputEndpoint_def
        split: option.splits sum.splits flow.splits status.splits)
  then show ?thesis by (simp add: no_output_block_def)
qed

theorem endpoint_log_never_written_witness:
  "using_endpoints \<notin> set (trace started) \<and>
   using_endpoints \<notin> set (trace (snd (generate_traffic [full_it, stall_it] started)))"
proof -
  have "using_endpoints \<notin> set (trace started)"
    by (simp add: started_def init_def using_endpoints_def)
  with endpoint_log_never_written [of started "[full_it, stall_it]"] show ?thesis by simp
qed

subsection \<open>Failure of the backend discovery\<close>

lemma try_paths_none:
  "\<forall>p \<in> set ps. \<not> path_exists h p \<Longrightarrow> try_paths h ps s = (None, s)"
  by (induction ps) simp_all

text \<open>
  C6. On Windows, when none of the three library paths exists and no backend has been set
  up, \<^verbatim>\<open>find_device\<close> returns failure and the trace gains two information lines, the
  error line and the \<open>BackendNotFound\<close> report, and nothing else: no enumeration of the
  bus and no search for the device is made.
\<close>

theorem backend_not_found_no_enumeration:
  assumes "is_windows h" and "\<not> setup_complete s" and "backend s = None"
    and "\<forall>p \<in> set (libusb_paths h). \<not> path_exists h p"
  shows "find_device h s =
           (False, s\<lparr>trace := trace s @
              [Log INFO ''Searching for Lumidigm device'', Log INFO ''Setting up libusb backend'',
               Log ERROR ''libusb-1.0.dll not found'', BackendNotFound]\<rparr>)"
  using assms
  by (simp add: find_device_def ensure_backend_def setup_backend_def try_paths_none
      log_def emit_def)

theorem backend_not_found_no_enumeration_witness:
  "is_windows (windows_host\<lparr>path_exists := (\<lambda>p. False)\<rparr>) \<and>
   \<not> setup_complete init \<and> backend init = None \<and>
   find_device (windows_host\<lparr>path_exists := (\<lambda>p. False)\<rparr>) init =
     (False, init\<lparr>trace :=
        [Log INFO ''USBTrafficGenerator initialized'', Log INFO ''Searching for Lumidigm device'',
         Log INFO ''Setting up libusb backend'', Log ERROR ''libusb-1.0.dll not found'',
         BackendNotFound]\<rparr>)"
  using backend_not_found_no_enumeration [of "windows_host\<lparr>path_exists := (\<lambda>p. False)\<rparr>" init]
  by (simp add: windows_host_def init_def)

subsection \<open>The search for the device\<close>

lemma try_paths_backend:
  "backend s = backend s' \<Longrightarrow>
     fst (try_paths h ps s) = fst (try_paths h ps s') \<and>
     backend (snd (try_paths h ps s)) = backend (snd (try_paths h ps s'))"
  by (induction ps) (simp_all split: sum.splits)

lemma setup_backend_backend:
  assumes "backend s = backend s'"
  shows "fst (setup_backend h s) = fst (setup_backend h s') \<and>
         backend (snd (setup_backend h s)) = backend (snd (setup_backend h s'))"
proof -
  from assms have "backend (log INFO ''Setting up libusb backend'' s) =
      backend (log INFO ''Setting up libusb backend'' s')" by simp
  from try_paths_backend [OF this, of h "libusb_paths h"]
  have tp: "fst (try_paths h (libusb_paths h) (log INFO ''Setting up libusb backend'' s)) =
      fst (try_paths h (libusb_paths h) (log INFO ''Setting up libusb backend'' s'))"
    "backend (snd (try_paths h (libusb_paths h) (log INFO ''Setting up libusb backend'' s))) =
      backend (snd (try_paths h (libusb_paths h) (log INFO ''Setting up libusb backend'' s')))"
    by simp_all
  show ?thesis
  proof (cases "is_windows h")
    case True
    then show ?thesis
      by (cases "fst (try_paths h (libusb_paths h) (log INFO ''Setting up libusb backend'' s'))")
        (simp_all add: setup_backend_def setup_done_def setup_failed_def Let_def split_beta tp)
  next
    case False
    with assms show ?thesis
      by (simp add: setup_backend_def setup_done_def setup_failed_def Let_def
          split: sum.splits)
  qed
qed

lemma ensure_backend_log [simp]:
  "fst (ensure_backend h (log l m s)) = fst (ensure_backend h s)"
  "backend (snd (ensure_backend h (log l m s))) = backend (snd (ensure_backend h s))"
  using setup_backend_backend [of "log l m s" s h]
  by (simp_all add: ensure_backend_def)

lemma configure_device_device [simp]:
  "device (snd (configure_device h dev s)) = device s"
  by (simp add: configure_device_def detach_kernel_driver_def Let_def split_beta
      split: option.splits sum.splits py_exception.splits)








subsection \<open>Configuration on Windows\<close>







end
